theory Spec2Isabelle
  imports Main "HOL-Library.Sublist" "HOL-Library.AList"
begin

section \<open>Go values used by the engine\<close>

text \<open>
  A Go \<^verbatim>\<open>string\<close> is a byte sequence, here a \<^typ>\<open>string\<close> (a list of 8-bit
  characters). A Go \<^verbatim>\<open>map[string]string\<close> may be \<^verbatim>\<open>nil\<close>: it is modelled as an
  optional partial map, \<open>None\<close> being the nil map. Indexing a Go map at a key it does not
  hold (or indexing the nil map) yields the zero value, the empty string.
\<close>

type_synonym strmap = "(string \<rightharpoonup> string) option"

definition index_map :: "strmap \<Rightarrow> string \<Rightarrow> string" where
  "index_map m k = (case m of None \<Rightarrow> [] | Some f \<Rightarrow> (case f k of None \<Rightarrow> [] | Some v \<Rightarrow> v))"

text \<open>The two-result form \<^verbatim>\<open>v, ok := m[k]\<close>.\<close>

definition index_map_ok :: "strmap \<Rightarrow> string \<Rightarrow> string \<times> bool" where
  "index_map_ok m k = (case m of None \<Rightarrow> ([], False)
     | Some f \<Rightarrow> (case f k of None \<Rightarrow> ([], False) | Some v \<Rightarrow> (v, True)))"

text \<open>
  The tree of \<^verbatim>\<open>interface{}\<close> values held by an unstructured object after decoding:
  maps, slices and leaves. A map is given by its entries.
\<close>

datatype scalar = SString string | SInt int | SBool bool | SNull

datatype "value" = VMap "(string \<times> value) list" | VList "value list" | VLeaf scalar

text \<open>
  \<^verbatim>\<open>unstructured.Unstructured\<close>, as this code sees it: the raw content \<open>Object\<close> and the
  results of the accessors \<^verbatim>\<open>GetKind\<close>, \<^verbatim>\<open>GetAPIVersion\<close>, \<^verbatim>\<open>GetName\<close>,
  \<^verbatim>\<open>GetNamespace\<close>, \<^verbatim>\<open>GetLabels\<close> and \<^verbatim>\<open>GetAnnotations\<close>. A pointer to an object that
  may be nil is an \<open>Unstructured option\<close>.
\<close>

record Unstructured =
  Object :: "(string \<times> value) list"
  GetKind :: string
  GetAPIVersion :: string
  GetName :: string
  GetNamespace :: string
  GetLabels :: strmap
  GetAnnotations :: strmap

text \<open>\<^verbatim>\<open>strings.HasSuffix\<close> and \<^verbatim>\<open>strings.Contains\<close>.\<close>

definition HasSuffix :: "string \<Rightarrow> string \<Rightarrow> bool" where
  "HasSuffix s suf = suffix suf s"

definition Contains :: "string \<Rightarrow> string \<Rightarrow> bool" where
  "Contains s sub = sublist sub s"

section \<open>Errors\<close>

text \<open>
  Every \<^verbatim>\<open>fmt.Errorf\<close> of the modelled code is a constructor carrying the values the
  message is formatted from; a wrapped error (\<^verbatim>\<open>%w\<close>) is carried whole. Errors raised by
  the file system and the YAML decoder are carried by their message; the API client's errors
  are \<open>ErrNotFound\<close> and \<open>ErrAPI\<close>.
\<close>

datatype error =
    ErrObjectIsNil
  | ErrSensitiveKindPatch string
  | ErrInvalidMode string
  | ErrYAMLTooLarge nat nat
  | ErrYAMLParse string
  | ErrYAMLTooDeep nat nat
  | ErrParseDocument nat error
  | ErrFS string
  | ErrReadTombstoneFile string error
  | ErrParseTombstoneFile string error
  | ErrTombstoneMissingField string string
  | ErrTombstoneMissingLabel string
  | ErrTombstoneIncorrectLabel string string
  | ErrLoadTombstones error
  | ErrNotFound
  | ErrAPI string
  | ErrGetResource error
  | ErrDeleteResource error
  | ErrTombstoneProcessing nat

section \<open>Package overrides: annotations on managed objects\<close>


definition AnnotationMode :: string where
  "AnnotationMode = ''platform.kubevirt.io/mode''"

definition ModeUnmanaged :: string where
  "ModeUnmanaged = ''unmanaged''"

definition AnnotationReconcilePaused :: string where
  "AnnotationReconcilePaused = ''platform.kubevirt.io/reconcile-paused''"

text \<open>
  Modelled from the spec: the constants \<^verbatim>\<open>PatchAnnotation\<close> and
  \<^verbatim>\<open>AnnotationIgnoreFields\<close> are declared in a file of package overrides that is not
  among the sources; the annotations are keyed under the same prefix as the others.
\<close>

definition PatchAnnotation :: string where
  "PatchAnnotation = ''platform.kubevirt.io/patch''"

definition AnnotationIgnoreFields :: string where
  "AnnotationIgnoreFields = ''platform.kubevirt.io/ignore-fields''"

text \<open>The eleven entries of the map \<^verbatim>\<open>sensitiveKinds\<close>, all mapped to true.\<close>

definition sensitiveKinds_entries :: "string list" where
  "sensitiveKinds_entries =
    [''MachineConfig'', ''KubeletConfig'',
     ''ClusterRole'', ''ClusterRoleBinding'', ''Role'', ''RoleBinding'', ''ServiceAccount'',
     ''PodSecurityPolicy'', ''SecurityContextConstraints'',
     ''ValidatingWebhookConfiguration'', ''MutatingWebhookConfiguration'']"

definition sensitiveKinds :: "string \<Rightarrow> bool" where
  "sensitiveKinds kind = (kind \<in> set sensitiveKinds_entries)"

definition ValidatePatchSecurity :: "Unstructured option \<Rightarrow> error option" where
  "ValidatePatchSecurity obj =
    (case obj of
       None \<Rightarrow> Some ErrObjectIsNil
     | Some u \<Rightarrow>
        (let kind = GetKind u in
         if sensitiveKinds kind then
           (let annotations = GetAnnotations u in
            if annotations \<noteq> None \<and> snd (index_map_ok annotations PatchAnnotation)
            then Some (ErrSensitiveKindPatch kind)
            else None)
         else None))"

definition IsUnmanaged :: "Unstructured option \<Rightarrow> bool" where
  "IsUnmanaged obj =
    (case obj of
       None \<Rightarrow> False
     | Some u \<Rightarrow>
        (let annotations = GetAnnotations u in
         if annotations = None then False
         else (let (mode, exists) = index_map_ok annotations AnnotationMode
               in exists \<and> mode = ModeUnmanaged)))"

definition IsPaused :: "Unstructured option \<Rightarrow> bool" where
  "IsPaused obj =
    (case obj of
       None \<Rightarrow> False
     | Some u \<Rightarrow>
        (let annotations = GetAnnotations u in
         if annotations = None then False
         else (let (val, exists) = index_map_ok annotations AnnotationReconcilePaused
               in exists \<and> val = ''true'')))"


section \<open>Strings: splitting and trimming\<close>

text \<open>
  \<^verbatim>\<open>strings.Split(s, sep)\<close> for a non-empty separator (the separator is a non-empty
  literal at every call in this code): the text is cut at each occurrence of \<open>sep\<close>, found
  from left to right without overlap. \<open>acc\<close> holds the current piece, reversed.
\<close>

function Split_from :: "string \<Rightarrow> string \<Rightarrow> string \<Rightarrow> string list" where
  "Split_from sep acc [] = [rev acc]"
| "Split_from sep acc (c # cs) =
     (if sep \<noteq> [] \<and> prefix sep (c # cs)
      then rev acc # Split_from sep [] (drop (length sep) (c # cs))
      else Split_from sep (c # acc) cs)"
  by pat_completeness auto
termination
  by (relation "measure (\<lambda>(sep, acc, s). length s)") auto

definition Split :: "string \<Rightarrow> string \<Rightarrow> string list" where
  "Split s sep = Split_from sep [] s"

text \<open>
  \<^verbatim>\<open>strings.TrimSpace\<close> removes the leading and the trailing white space, as defined by
  Unicode, of a UTF-8 text. A position holds a white-space character exactly when the bytes
  there are the UTF-8 encoding of one: the six ASCII ones, U+0085, U+00A0, U+1680,
  U+2000 to U+200A, U+2028, U+2029, U+202F, U+205F and U+3000.
\<close>

definition asciiSpace :: "string list" where
  "asciiSpace = [[CHR 0x09], [CHR 0x0A], [CHR 0x0B], [CHR 0x0C], [CHR 0x0D], [CHR 0x20]]"

definition unicodeSpace :: "string list" where
  "unicodeSpace = asciiSpace @
     [[CHR 0xC2, CHR 0x85], [CHR 0xC2, CHR 0xA0], [CHR 0xE1, CHR 0x9A, CHR 0x80]] @
     map (\<lambda>c. [CHR 0xE2, CHR 0x80, c])
       [CHR 0x80, CHR 0x81, CHR 0x82, CHR 0x83, CHR 0x84, CHR 0x85, CHR 0x86, CHR 0x87,
        CHR 0x88, CHR 0x89, CHR 0x8A, CHR 0xA8, CHR 0xA9, CHR 0xAF] @
     [[CHR 0xE2, CHR 0x81, CHR 0x9F], [CHR 0xE3, CHR 0x80, CHR 0x80]]"

text \<open>The number of bytes of the encoding in \<open>es\<close> that \<open>s\<close> starts with; 0 if there is none.\<close>

fun rune_width :: "string list \<Rightarrow> string \<Rightarrow> nat" where
  "rune_width [] s = 0"
| "rune_width (e # es) s = (if prefix e s then length e else rune_width es s)"

function strip_runes :: "string list \<Rightarrow> string \<Rightarrow> string" where
  "strip_runes es s = (let w = rune_width es s in if w = 0 then s else strip_runes es (drop w s))"
  by pat_completeness auto
termination
proof (relation "measure (\<lambda>(es, s). length s)")
  show "wf (measure (\<lambda>(es, s). length s))" by simp
next
  fix es :: "string list" and s :: string and w :: nat
  assume w: "w = rune_width es s" and nz: "w \<noteq> 0"
  have "rune_width es s \<le> length s"
    by (induction es) (auto simp: prefix_length_le)
  with w nz show "((es, drop w s), (es, s)) \<in> measure (\<lambda>(es, s). length s)"
    by simp
qed

declare strip_runes.simps [simp del]

definition TrimSpace :: "string \<Rightarrow> string" where
  "TrimSpace s = rev (strip_runes (map rev unicodeSpace) (rev (strip_runes unicodeSpace s)))"

section \<open>Package engine: root exclusion\<close>

text \<open>
  A Go \<^verbatim>\<open>map[string]bool\<close> is the list of its entries, one per key; \<^verbatim>\<open>len\<close> is the number
  of entries, storing a key replaces its entry, and indexing a missing key yields false.
\<close>

type_synonym boolmap = "(string \<times> bool) list"

definition index_boolmap :: "boolmap \<Rightarrow> string \<Rightarrow> bool" where
  "index_boolmap m k = (case map_of m k of None \<Rightarrow> False | Some b \<Rightarrow> b)"

definition DisabledResourcesAnnotation :: string where
  "DisabledResourcesAnnotation = ''platform.kubevirt.io/disabled-resources''"

text \<open>The body of the loop of \<^verbatim>\<open>ParseDisabledResources\<close> over the pairs.\<close>

definition ParseDisabledResources_step :: "string \<Rightarrow> boolmap \<Rightarrow> boolmap" where
  "ParseDisabledResources_step pair disabled =
    (let trimmed = TrimSpace pair
     in if trimmed \<noteq> [] then AList.update trimmed True disabled else disabled)"

definition ParseDisabledResources :: "string \<Rightarrow> boolmap" where
  "ParseDisabledResources annotation =
    (if annotation = [] then []
     else fold ParseDisabledResources_step (Split annotation '','') [])"

text \<open>\<^verbatim>\<open>fmt.Sprintf("%s/%s", kind, name)\<close>.\<close>

definition resource_key :: "string \<Rightarrow> string \<Rightarrow> string" where
  "resource_key kind name = kind @ ''/'' @ name"

fun FilterExcludedAssets_loop :: "Unstructured list \<Rightarrow> boolmap \<Rightarrow> Unstructured list \<Rightarrow> Unstructured list" where
  "FilterExcludedAssets_loop [] disabledMap filtered = filtered"
| "FilterExcludedAssets_loop (asset # rest) disabledMap filtered =
     (let key = resource_key (GetKind asset) (GetName asset)
      in if index_boolmap disabledMap key
         then FilterExcludedAssets_loop rest disabledMap filtered
         else FilterExcludedAssets_loop rest disabledMap (filtered @ [asset]))"

definition FilterExcludedAssets :: "Unstructured list \<Rightarrow> boolmap \<Rightarrow> Unstructured list" where
  "FilterExcludedAssets assets disabledMap =
    (if length disabledMap = 0 then assets
     else FilterExcludedAssets_loop assets disabledMap [])"

definition IsResourceExcluded :: "string \<Rightarrow> string \<Rightarrow> boolmap \<Rightarrow> bool" where
  "IsResourceExcluded kind name disabledMap =
    (if length disabledMap = 0 then False
     else (let key = resource_key kind name in index_boolmap disabledMap key))"

section \<open>Package render: asset conditions\<close>

text \<open>
  \<^verbatim>\<open>assets.ConditionType\<close> is a string type; its three constants are the cases of the
  switch in \<^verbatim>\<open>CheckConditions\<close>, and any other string is \<open>ConditionTypeOther\<close>.
\<close>

datatype ConditionType =
    ConditionTypeAnnotation
  | ConditionTypeFeatureGate
  | ConditionTypeHardwareDetection
  | ConditionTypeOther string

record AssetCondition =
  cond_Type :: ConditionType
  cond_Key :: string
  cond_Value :: string
  cond_Detector :: string

record AssetMetadata =
  asset_Name :: string
  asset_Path :: string
  asset_Component :: string
  Conditions :: "AssetCondition list"

record RenderContext =
  HCO :: Unstructured

fun CheckConditions_loop :: "AssetCondition list \<Rightarrow> RenderContext \<Rightarrow> bool" where
  "CheckConditions_loop [] renderCtx = True"
| "CheckConditions_loop (condition # rest) renderCtx =
     (case cond_Type condition of
        ConditionTypeAnnotation \<Rightarrow>
          if index_map (GetAnnotations (HCO renderCtx)) (cond_Key condition) \<noteq> cond_Value condition
          then False
          else CheckConditions_loop rest renderCtx
      | ConditionTypeFeatureGate \<Rightarrow>
          (let featureGates =
                 index_map (GetAnnotations (HCO renderCtx)) ''platform.kubevirt.io/feature-gates''
           in if \<not> Contains featureGates (cond_Value condition)
              then False
              else CheckConditions_loop rest renderCtx)
      | ConditionTypeHardwareDetection \<Rightarrow> False
      | ConditionTypeOther t \<Rightarrow> CheckConditions_loop rest renderCtx)"

definition CheckConditions :: "AssetMetadata \<Rightarrow> RenderContext \<Rightarrow> bool" where
  "CheckConditions assetMeta renderCtx =
    (if length (Conditions assetMeta) = 0 then True
     else CheckConditions_loop (Conditions assetMeta) renderCtx)"

section \<open>Package assets: parsing YAML\<close>

definition MaxYAMLSize :: nat where
  "MaxYAMLSize = 10 * 1024 * 1024"

definition MaxYAMLDepth :: nat where
  "MaxYAMLDepth = 100"

text \<open>
  The YAML decoder \<^verbatim>\<open>yaml.Unmarshal\<close> belongs to a library: it is a parameter \<open>unm\<close> of
  the functions that call it, giving for every text either the decoder's error message or
  the decoded object.
\<close>

type_synonym unmarshal = "string \<Rightarrow> string + Unstructured"

fun calculateDepth :: "value \<Rightarrow> nat" where
  "calculateDepth (VMap v) =
     1 + fold (\<lambda>(key, val) maxDepth.
                 let depth = calculateDepth val
                 in if depth > maxDepth then depth else maxDepth) v 0"
| "calculateDepth (VList v) =
     1 + fold (\<lambda>item maxDepth.
                 let depth = calculateDepth item
                 in if depth > maxDepth then depth else maxDepth) v 0"
| "calculateDepth (VLeaf x) = 1"

definition ParseYAML :: "unmarshal \<Rightarrow> string \<Rightarrow> error + Unstructured" where
  "ParseYAML unm data =
    (if length data > MaxYAMLSize then Inl (ErrYAMLTooLarge MaxYAMLSize (length data))
     else (case unm data of
             Inl msg \<Rightarrow> Inl (ErrYAMLParse msg)
           | Inr obj \<Rightarrow>
              (let depth = calculateDepth (VMap (Object obj))
               in if depth > MaxYAMLDepth then Inl (ErrYAMLTooDeep MaxYAMLDepth depth)
                  else Inr obj)))"

text \<open>The loop of \<^verbatim>\<open>ParseMultiYAML\<close> over the documents, \<open>i\<close> being the index of the next one.\<close>

fun ParseMultiYAML_loop ::
  "unmarshal \<Rightarrow> nat \<Rightarrow> string list \<Rightarrow> Unstructured list \<Rightarrow> error + Unstructured list" where
  "ParseMultiYAML_loop unm i [] objects = Inr objects"
| "ParseMultiYAML_loop unm i (d # docs) objects =
     (let doc = TrimSpace d
      in if doc = [] then ParseMultiYAML_loop unm (i + 1) docs objects
         else (case ParseYAML unm doc of
                 Inl err \<Rightarrow> Inl (ErrParseDocument i err)
               | Inr obj \<Rightarrow> ParseMultiYAML_loop unm (i + 1) docs (objects @ [obj])))"

definition ParseMultiYAML :: "unmarshal \<Rightarrow> string \<Rightarrow> error + Unstructured list" where
  "ParseMultiYAML unm data =
    (if length data > MaxYAMLSize then Inl (ErrYAMLTooLarge MaxYAMLSize (length data))
     else ParseMultiYAML_loop unm 0 (Split data [CHR 0x0A, CHR ''-'', CHR ''-'', CHR ''-'', CHR 0x0A]) [])"

section \<open>Package assets: tombstones\<close>

definition TombstoneLabel :: string where
  "TombstoneLabel = ''platform.kubevirt.io/managed-by''"

definition TombstoneLabelValue :: string where
  "TombstoneLabelValue = ''virt-platform-autopilot''"

definition TombstonesDir :: string where
  "TombstonesDir = ''tombstones''"

record GroupVersionKind =
  Group :: string
  Version :: string
  Kind :: string

text \<open>
  The accessor \<^verbatim>\<open>GroupVersionKind()\<close> of an unstructured object: the API version is
  \<^verbatim>\<open>version\<close> or \<^verbatim>\<open>group/version\<close>; one with more than one slash gives the empty
  group, version and kind.
\<close>

definition GetGroupVersionKind :: "Unstructured \<Rightarrow> GroupVersionKind" where
  "GetGroupVersionKind obj =
    (let gv = GetAPIVersion obj
     in if gv = [] \<or> gv = ''/'' then \<lparr>Group = [], Version = [], Kind = GetKind obj\<rparr>
        else (case Split gv ''/'' of
                [v] \<Rightarrow> \<lparr>Group = [], Version = v, Kind = GetKind obj\<rparr>
              | [g, v] \<Rightarrow> \<lparr>Group = g, Version = v, Kind = GetKind obj\<rparr>
              | _ \<Rightarrow> \<lparr>Group = [], Version = [], Kind = []\<rparr>))"

record TombstoneMetadata =
  ts_Path :: string
  ts_GVK :: GroupVersionKind
  ts_Namespace :: string
  ts_Name :: string
  ts_Object :: Unstructured

definition validateTombstone :: "Unstructured \<Rightarrow> string \<Rightarrow> error option" where
  "validateTombstone obj path =
    (if GetKind obj = [] then Some (ErrTombstoneMissingField path ''kind'')
     else if GetAPIVersion obj = [] then Some (ErrTombstoneMissingField path ''apiVersion'')
     else if GetName obj = [] then Some (ErrTombstoneMissingField path ''metadata.name'')
     else (let labels = GetLabels obj
           in if labels = None then Some (ErrTombstoneMissingLabel path)
              else if index_map labels TombstoneLabel \<noteq> TombstoneLabelValue
                   then Some (ErrTombstoneIncorrectLabel path (index_map labels TombstoneLabel))
                   else None))"

text \<open>
  The embedded file system, as \<^verbatim>\<open>LoadTombstones\<close> reads it: the calls that
  \<^verbatim>\<open>fs.WalkDir\<close> makes to its function for the tombstones directory, in order, as long as
  the function returns nil. A call passes a path and either an error (its message) or a
  directory entry; \<open>we_read\<close> is what \<^verbatim>\<open>ReadFile\<close> returns for the path.
\<close>

record walk_entry =
  we_path :: string
  we_err :: "string option"
  we_IsDir :: bool
  we_read :: "string + string"

record Loader =
  fs :: "walk_entry list"

text \<open>The loop over the objects of one tombstone file.\<close>

fun LoadTombstones_objects ::
  "string \<Rightarrow> Unstructured list \<Rightarrow> TombstoneMetadata list \<Rightarrow> error + TombstoneMetadata list" where
  "LoadTombstones_objects path [] tombstones = Inr tombstones"
| "LoadTombstones_objects path (obj # objects) tombstones =
     (case validateTombstone obj path of
        Some err \<Rightarrow> Inl err
      | None \<Rightarrow>
         (let gvk = GetGroupVersionKind obj;
              namespace = GetNamespace obj;
              name = GetName obj
          in LoadTombstones_objects path objects
               (tombstones @ [\<lparr>ts_Path = path, ts_GVK = gvk, ts_Namespace = namespace,
                                ts_Name = name, ts_Object = obj\<rparr>])))"

text \<open>The function that \<^verbatim>\<open>LoadTombstones\<close> passes to \<^verbatim>\<open>fs.WalkDir\<close>.\<close>

definition LoadTombstones_visit ::
  "unmarshal \<Rightarrow> walk_entry \<Rightarrow> TombstoneMetadata list \<Rightarrow> error + TombstoneMetadata list" where
  "LoadTombstones_visit unm e tombstones =
    (case we_err e of
       Some msg \<Rightarrow>
         if Contains msg ''no such file or directory'' \<or> Contains msg ''file does not exist''
         then Inr tombstones
         else Inl (ErrFS msg)
     | None \<Rightarrow>
         if we_IsDir e then Inr tombstones
         else if \<not> HasSuffix (we_path e) ''.yaml'' \<and> \<not> HasSuffix (we_path e) ''.yaml.tpl''
         then Inr tombstones
         else (case we_read e of
                 Inl msg \<Rightarrow> Inl (ErrReadTombstoneFile (we_path e) (ErrFS msg))
               | Inr data \<Rightarrow>
                  (case ParseMultiYAML unm data of
                     Inl err \<Rightarrow> Inl (ErrParseTombstoneFile (we_path e) err)
                   | Inr objects \<Rightarrow> LoadTombstones_objects (we_path e) objects tombstones)))"

text \<open>\<^verbatim>\<open>fs.WalkDir\<close>: the walk stops at the first error its function returns.\<close>

fun WalkDir ::
  "walk_entry list \<Rightarrow> (walk_entry \<Rightarrow> 'a \<Rightarrow> error + 'a) \<Rightarrow> 'a \<Rightarrow> error + 'a" where
  "WalkDir [] fn acc = Inr acc"
| "WalkDir (e # es) fn acc =
     (case fn e acc of Inl err \<Rightarrow> Inl err | Inr acc' \<Rightarrow> WalkDir es fn acc')"

definition LoadTombstones :: "unmarshal \<Rightarrow> Loader \<Rightarrow> error + TombstoneMetadata list" where
  "LoadTombstones unm l =
    (case WalkDir (fs l) (LoadTombstones_visit unm) [] of
       Inl err \<Rightarrow> Inl (ErrLoadTombstones err)
     | Inr tombstones \<Rightarrow> Inr tombstones)"

section \<open>Package engine: the tombstone reconciler\<close>

text \<open>
  The cluster behind \<^verbatim>\<open>client.Client\<close>: the objects it holds, by group, version, kind,
  namespace and name, and the calls on which the API fails (with the error it returns).
  The state that \<^verbatim>\<open>reconcileTombstone\<close> acts on also has the trace of the client calls
  made, the statuses given to \<^verbatim>\<open>observability.SetTombstoneStatus\<close> and the events
  given to the event recorder, each in order. Log lines are not modelled.
\<close>

type_synonym objkey = "GroupVersionKind \<times> string \<times> string"

datatype api_call = CallGet objkey | CallDelete objkey

datatype TombstoneStatus = TombstoneDeleted | TombstoneError | TombstoneSkipped | TombstoneExists

datatype failure = FailedToGet error | FailedToDelete error

datatype event =
    EvTombstoneFailed "Unstructured option" string string string failure
  | EvTombstoneSkipped "Unstructured option" string string string string
  | EvTombstoneDeleted "Unstructured option" string string string string

record cluster =
  objects :: "objkey \<rightharpoonup> Unstructured"
  get_failure :: "objkey \<rightharpoonup> error"
  delete_failure :: "objkey \<rightharpoonup> error"
  calls :: "api_call list"
  statuses :: "(Unstructured \<times> TombstoneStatus) list"
  events :: "event list"

text \<open>\<^verbatim>\<open>client.Get\<close>: the API's failure if there is one, NotFound for an absent object.\<close>

definition client_Get :: "objkey \<Rightarrow> cluster \<Rightarrow> (error + Unstructured) \<times> cluster" where
  "client_Get key c =
    ((case get_failure c key of
        Some err \<Rightarrow> Inl err
      | None \<Rightarrow> (case objects c key of None \<Rightarrow> Inl ErrNotFound | Some obj \<Rightarrow> Inr obj)),
     c\<lparr>calls := calls c @ [CallGet key]\<rparr>)"

text \<open>\<^verbatim>\<open>client.Delete\<close> of the object fetched under \<open>key\<close>: it removes the object.\<close>

definition client_Delete :: "objkey \<Rightarrow> cluster \<Rightarrow> error option \<times> cluster" where
  "client_Delete key c =
    (case delete_failure c key of
       Some err \<Rightarrow> (Some err, c\<lparr>calls := calls c @ [CallDelete key]\<rparr>)
     | None \<Rightarrow>
        (case objects c key of
           None \<Rightarrow> (Some ErrNotFound, c\<lparr>calls := calls c @ [CallDelete key]\<rparr>)
         | Some obj \<Rightarrow>
            (None, c\<lparr>objects := (objects c)(key := None),
                      calls := calls c @ [CallDelete key]\<rparr>)))"

definition IsNotFound :: "error \<Rightarrow> bool" where
  "IsNotFound err = (err = ErrNotFound)"

definition SetTombstoneStatus :: "Unstructured \<Rightarrow> TombstoneStatus \<Rightarrow> cluster \<Rightarrow> cluster" where
  "SetTombstoneStatus obj status c = c\<lparr>statuses := statuses c @ [(obj, status)]\<rparr>"

text \<open>
  \<^verbatim>\<open>TombstoneReconciler\<close>: its client is the cluster state passed along;
  \<open>eventRecorder\<close> tells whether the recorder is set (not nil).
\<close>

record TombstoneReconciler =
  loader :: Loader
  eventRecorder :: bool

definition record_event :: "TombstoneReconciler \<Rightarrow> event \<Rightarrow> cluster \<Rightarrow> cluster" where
  "record_event r ev c = (if eventRecorder r then c\<lparr>events := events c @ [ev]\<rparr> else c)"

definition reconcileTombstone ::
  "TombstoneReconciler \<Rightarrow> TombstoneMetadata \<Rightarrow> Unstructured option \<Rightarrow> cluster
     \<Rightarrow> (bool \<times> error option) \<times> cluster" where
  "reconcileTombstone r ts hco c0 =
    (let objKey = (ts_GVK ts, ts_Namespace ts, ts_Name ts);
         (got, c1) = client_Get objKey c0
     in case got of
          Inl err \<Rightarrow>
            if IsNotFound err
            then ((False, None), SetTombstoneStatus (ts_Object ts) TombstoneDeleted c1)
            else ((False, Some (ErrGetResource err)),
                  record_event r
                    (EvTombstoneFailed hco (Kind (ts_GVK ts)) (ts_Namespace ts) (ts_Name ts)
                       (FailedToGet err))
                    (SetTombstoneStatus (ts_Object ts) TombstoneError c1))
        | Inr live \<Rightarrow>
            (let labels = GetLabels live
             in if labels = None \<or> index_map labels TombstoneLabel \<noteq> TombstoneLabelValue
                then ((False, None),
                      record_event r
                        (EvTombstoneSkipped hco (Kind (ts_GVK ts)) (ts_Namespace ts) (ts_Name ts)
                           ''Label mismatch - resource not managed by virt-platform-autopilot'')
                        (SetTombstoneStatus (ts_Object ts) TombstoneSkipped c1))
                else (let (derr, c2) = client_Delete objKey c1
                      in case derr of
                           Some err \<Rightarrow>
                             ((False, Some (ErrDeleteResource err)),
                              record_event r
                                (EvTombstoneFailed hco (Kind (ts_GVK ts)) (ts_Namespace ts)
                                   (ts_Name ts) (FailedToDelete err))
                                (SetTombstoneStatus (ts_Object ts) TombstoneError c2))
                         | None \<Rightarrow>
                             ((True, None),
                              record_event r
                                (EvTombstoneDeleted hco (Kind (ts_GVK ts)) (ts_Namespace ts)
                                   (ts_Name ts) (ts_Path ts))
                                (SetTombstoneStatus (ts_Object ts) TombstoneDeleted c2)))))"

text \<open>
  The loop of \<^verbatim>\<open>ReconcileTombstones\<close>, with its two variables \<open>deletedCount\<close> and
  \<open>aggregatedErrors\<close>.
\<close>

fun ReconcileTombstones_loop ::
  "TombstoneReconciler \<Rightarrow> Unstructured option \<Rightarrow> TombstoneMetadata list \<Rightarrow> nat \<Rightarrow> error list
     \<Rightarrow> cluster \<Rightarrow> (nat \<times> error list) \<times> cluster" where
  "ReconcileTombstones_loop r hco [] deletedCount aggregatedErrors c =
     ((deletedCount, aggregatedErrors), c)"
| "ReconcileTombstones_loop r hco (ts # rest) deletedCount aggregatedErrors c =
     (case reconcileTombstone r ts hco c of
        ((deleted, Some err), c') \<Rightarrow>
          ReconcileTombstones_loop r hco rest deletedCount (aggregatedErrors @ [err]) c'
      | ((deleted, None), c') \<Rightarrow>
          ReconcileTombstones_loop r hco rest
            (if deleted then deletedCount + 1 else deletedCount) aggregatedErrors c')"

definition ReconcileTombstones ::
  "unmarshal \<Rightarrow> TombstoneReconciler \<Rightarrow> Unstructured option \<Rightarrow> cluster
     \<Rightarrow> (nat \<times> error option) \<times> cluster" where
  "ReconcileTombstones unm r hco c =
    (case LoadTombstones unm (loader r) of
       Inl err \<Rightarrow> ((0, Some (ErrLoadTombstones err)), c)
     | Inr tombstones \<Rightarrow>
        if length tombstones = 0 then ((0, None), c)
        else (let ((deletedCount, aggregatedErrors), c') =
                    ReconcileTombstones_loop r hco tombstones 0 [] c
              in if length aggregatedErrors > 0
                 then ((deletedCount, Some (ErrTombstoneProcessing (length aggregatedErrors))), c')
                 else ((deletedCount, None), c')))"

section \<open>Example objects\<close>

text \<open>A MachineConfig that carries the ignore-fields and the mode annotation, and no patch.\<close>

definition machineconfig_ignore_mode :: Unstructured where
  "machineconfig_ignore_mode =
     \<lparr>Object = [], GetKind = ''MachineConfig'',
      GetAPIVersion = ''machineconfiguration.openshift.io/v1'', GetName = ''50-swap-enable'',
      GetNamespace = [], GetLabels = None,
      GetAnnotations = Some [AnnotationIgnoreFields \<mapsto> ''/spec/config'',
                             AnnotationMode \<mapsto> ModeUnmanaged]\<rparr>"

text \<open>The same MachineConfig with a patch annotation.\<close>

definition machineconfig_patch :: Unstructured where
  "machineconfig_patch =
     machineconfig_ignore_mode
       \<lparr>GetAnnotations := Some [PatchAnnotation \<mapsto> ''[]'']\<rparr>"

text \<open>
  Two texts are the same up to letter case when they agree after the ASCII capital letters
  are replaced by the small ones. (This comparison is not part of the code: it only serves
  to state that the code's comparison is a different one.)
\<close>

definition lower_char :: "char \<Rightarrow> char" where
  "lower_char c = (let n = (of_char c :: nat) in if 65 \<le> n \<and> n \<le> 90 then char_of (n + 32) else c)"

definition same_up_to_case :: "string \<Rightarrow> string \<Rightarrow> bool" where
  "same_up_to_case s t = (map lower_char s = map lower_char t)"

text \<open>The HCO of the tests of \<^verbatim>\<open>CheckConditions\<close>, annotation conditions, and an asset.\<close>

definition hco_metallb :: Unstructured where
  "hco_metallb =
     \<lparr>Object = [], GetKind = ''HyperConverged'', GetAPIVersion = ''hco.kubevirt.io/v1beta1'',
      GetName = ''kubevirt-hyperconverged'', GetNamespace = ''openshift-cnv'', GetLabels = None,
      GetAnnotations = Some [''platform.kubevirt.io/enable-metallb'' \<mapsto> ''true'',
                             ''platform.kubevirt.io/openshift'' \<mapsto> ''true'']\<rparr>"

definition cond_annotation :: "string \<Rightarrow> string \<Rightarrow> AssetCondition" where
  "cond_annotation k v =
     \<lparr>cond_Type = ConditionTypeAnnotation, cond_Key = k, cond_Value = v, cond_Detector = []\<rparr>"

definition asset_with :: "AssetCondition list \<Rightarrow> AssetMetadata" where
  "asset_with cs = \<lparr>asset_Name = ''test'', asset_Path = ''test.yaml'', asset_Component = ''test'',
                     Conditions = cs\<rparr>"

text \<open>An HCO whose annotation \<open>enable-gpu\<close> is present with some value.\<close>

definition hco_gpu :: Unstructured where
  "hco_gpu = hco_metallb\<lparr>GetAnnotations := Some [''enable-gpu'' \<mapsto> ''anything'']\<rparr>"

(*PROPERTIES*)

section \<open>Go maps\<close>

lemma index_map_ok_Some: "snd (index_map_ok (Some m) k) = (m k \<noteq> None)"
  by (simp add: index_map_ok_def split: option.splits)

lemma index_map_eq_nonempty:
  "v \<noteq> [] \<Longrightarrow> (index_map m k = v) = (\<exists>f. m = Some f \<and> f k = Some v)"
  by (auto simp: index_map_def split: option.splits)

section \<open>Properties of the override annotations\<close>

text \<open>
  C3. For an object, \<open>ValidatePatchSecurity\<close> returns an error exactly when the kind is one
  of the eleven sensitive kinds and the patch annotation is present among the object's
  annotations; the error names the kind. An object whose annotations do not hold the patch
  annotation (whatever else they hold, such as ignore-fields or mode), or that has no
  annotations, is accepted whatever its kind. (The nil pointer, which is no object, is
  rejected as such.)
\<close>

theorem ValidatePatchSecurity_sensitive_iff:
  "ValidatePatchSecurity (Some u) =
     (if GetKind u \<in> {''MachineConfig'', ''KubeletConfig'', ''ClusterRole'', ''ClusterRoleBinding'',
                       ''Role'', ''RoleBinding'', ''ServiceAccount'', ''PodSecurityPolicy'',
                       ''SecurityContextConstraints'', ''ValidatingWebhookConfiguration'',
                       ''MutatingWebhookConfiguration''}
         \<and> (\<exists>m. GetAnnotations u = Some m \<and> m PatchAnnotation \<noteq> None)
      then Some (ErrSensitiveKindPatch (GetKind u)) else None)
   \<and> (\<forall>m. GetAnnotations u = Some m \<and> m PatchAnnotation = None
          \<longrightarrow> ValidatePatchSecurity (Some u) = None)
   \<and> (GetAnnotations u = None \<longrightarrow> ValidatePatchSecurity (Some u) = None)
   \<and> ValidatePatchSecurity None = Some ErrObjectIsNil"
  by (cases "GetAnnotations u")
     (simp_all add: ValidatePatchSecurity_def sensitiveKinds_def sensitiveKinds_entries_def
        index_map_ok_Some Let_def)

theorem ValidatePatchSecurity_sensitive_iff_witness:
  "GetKind machineconfig_ignore_mode = ''MachineConfig''
   \<and> GetAnnotations machineconfig_ignore_mode =
       Some [AnnotationIgnoreFields \<mapsto> ''/spec/config'', AnnotationMode \<mapsto> ModeUnmanaged]
   \<and> [AnnotationIgnoreFields \<mapsto> ''/spec/config'', AnnotationMode \<mapsto> ModeUnmanaged]
        PatchAnnotation = None
   \<and> ValidatePatchSecurity (Some machineconfig_ignore_mode) = None
   \<and> ValidatePatchSecurity (Some machineconfig_patch) =
       Some (ErrSensitiveKindPatch ''MachineConfig'')
   \<and> GetAnnotations (machineconfig_patch\<lparr>GetAnnotations := None\<rparr>) = None
   \<and> ValidatePatchSecurity (Some (machineconfig_patch\<lparr>GetAnnotations := None\<rparr>)) = None"
  using ValidatePatchSecurity_sensitive_iff [of machineconfig_ignore_mode]
    ValidatePatchSecurity_sensitive_iff [of machineconfig_patch]
    ValidatePatchSecurity_sensitive_iff [of "machineconfig_patch\<lparr>GetAnnotations := None\<rparr>"]
  by (simp add: machineconfig_ignore_mode_def machineconfig_patch_def
        AnnotationIgnoreFields_def AnnotationMode_def PatchAnnotation_def)


section \<open>Properties of root exclusion\<close>

lemma rune_width_Nil: "rune_width es [] = 0"
  by (induction es) auto

lemma strip_runes_Nil: "strip_runes es [] = []"
  by (subst strip_runes.simps) (simp add: rune_width_Nil)

lemma TrimSpace_Nil: "TrimSpace [] = []"
  by (simp add: TrimSpace_def strip_runes_Nil)

lemma set_update_subset: "set (AList.update k v al) \<subseteq> insert (k, v) (set al)"
  by (induction al) auto

lemma fold_step_keys:
  "fst ` set (fold ParseDisabledResources_step ps acc) =
     fst ` set acc \<union> {t. t \<noteq> [] \<and> t \<in> TrimSpace ` set ps}"
  by (induction ps arbitrary: acc) (auto simp: ParseDisabledResources_step_def Let_def dom_update)

lemma fold_step_values:
  "\<forall>p\<in>set acc. snd p \<Longrightarrow> \<forall>p\<in>set (fold ParseDisabledResources_step ps acc). snd p"
proof (induction ps arbitrary: acc)
  case Nil
  then show ?case by simp
next
  case (Cons p ps)
  have "\<forall>q\<in>set (ParseDisabledResources_step p acc). snd q"
    using Cons.prems set_update_subset [of "TrimSpace p" True acc]
    by (auto simp: ParseDisabledResources_step_def Let_def)
  then show ?case using Cons.IH by simp
qed

lemma ParseDisabledResources_fold:
  "ParseDisabledResources a = fold ParseDisabledResources_step (Split a '','') []"
  by (auto simp: ParseDisabledResources_def ParseDisabledResources_step_def Split_def TrimSpace_Nil)

lemma ParseDisabledResources_keys:
  "fst ` set (ParseDisabledResources a) = {t. t \<noteq> [] \<and> t \<in> TrimSpace ` set (Split a '','')}"
  by (simp add: ParseDisabledResources_fold fold_step_keys)

lemma ParseDisabledResources_index:
  "index_boolmap (ParseDisabledResources a) k = (k \<in> fst ` set (ParseDisabledResources a))"
proof (cases "map_of (ParseDisabledResources a) k")
  case None
  then have "k \<notin> fst ` set (ParseDisabledResources a)"
    by (simp add: map_of_eq_None_iff)
  with None show ?thesis by (simp add: index_boolmap_def)
next
  case (Some b)
  then have "(k, b) \<in> set (ParseDisabledResources a)" by (rule map_of_SomeD)
  moreover have "\<forall>p\<in>set (ParseDisabledResources a). snd p"
    unfolding ParseDisabledResources_fold by (rule fold_step_values) simp
  ultimately show ?thesis using Some by (force simp: index_boolmap_def)
qed

lemma IsResourceExcluded_index:
  "IsResourceExcluded kind name m = index_boolmap m (kind @ ''/'' @ name)"
  by (cases m) (simp_all add: IsResourceExcluded_def resource_key_def index_boolmap_def)

text \<open>
  C2. On the map that \<open>ParseDisabledResources\<close> makes of an annotation,
  \<open>IsResourceExcluded kind name\<close> is true exactly when the text \<open>kind/name\<close> is a key of
  the map; the keys are the non-empty trimmed entries of the comma-separated annotation.
  The comparison is equality of texts, so it is case-sensitive: a \<open>kind/name\<close> that is not
  itself a key is not excluded, also when it is the same as a key up to letter case.
\<close>

theorem IsResourceExcluded_iff_key:
  "IsResourceExcluded kind name (ParseDisabledResources a) =
     (kind @ ''/'' @ name \<in> fst ` set (ParseDisabledResources a))
   \<and> fst ` set (ParseDisabledResources a) = {t. t \<noteq> [] \<and> t \<in> TrimSpace ` set (Split a '','')}
   \<and> (\<forall>e. e \<in> fst ` set (ParseDisabledResources a)
            \<and> same_up_to_case (kind @ ''/'' @ name) e
            \<and> kind @ ''/'' @ name \<notin> fst ` set (ParseDisabledResources a)
          \<longrightarrow> \<not> IsResourceExcluded kind name (ParseDisabledResources a))"
  by (simp add: IsResourceExcluded_index ParseDisabledResources_index
        ParseDisabledResources_keys [symmetric])

theorem IsResourceExcluded_iff_key_witness:
  "''ConfigMap/test'' \<in> fst ` set (ParseDisabledResources ''ConfigMap/test'')
   \<and> same_up_to_case (''configmap'' @ ''/'' @ ''test'') ''ConfigMap/test''
   \<and> ''configmap'' @ ''/'' @ ''test'' \<notin> fst ` set (ParseDisabledResources ''ConfigMap/test'')
   \<and> \<not> IsResourceExcluded ''configmap'' ''test'' (ParseDisabledResources ''ConfigMap/test'')
   \<and> \<not> IsResourceExcluded ''ConfigMap'' ''Test'' (ParseDisabledResources ''ConfigMap/test'')
   \<and> IsResourceExcluded ''ConfigMap'' ''test'' (ParseDisabledResources ''ConfigMap/test'')"
proof -
  have p: "ParseDisabledResources ''ConfigMap/test'' = [(''ConfigMap/test'', True)]"
    by code_simp
  have h1: "''ConfigMap/test'' \<in> fst ` set (ParseDisabledResources ''ConfigMap/test'')"
    by (simp add: p)
  have h2: "same_up_to_case (''configmap'' @ ''/'' @ ''test'') ''ConfigMap/test''"
    by code_simp
  have h3: "''configmap'' @ ''/'' @ ''test'' \<notin> fst ` set (ParseDisabledResources ''ConfigMap/test'')"
    by (simp add: p)
  have h4: "''ConfigMap'' @ ''/'' @ ''Test'' \<notin> fst ` set (ParseDisabledResources ''ConfigMap/test'')"
    by (simp add: p)
  have h5: "''ConfigMap'' @ ''/'' @ ''test'' \<in> fst ` set (ParseDisabledResources ''ConfigMap/test'')"
    by (simp add: p)
  have c1: "\<not> IsResourceExcluded ''configmap'' ''test'' (ParseDisabledResources ''ConfigMap/test'')"
    using IsResourceExcluded_iff_key [of "''configmap''" "''test''" "''ConfigMap/test''"] h1 h2 h3
    by blast
  have c2: "\<not> IsResourceExcluded ''ConfigMap'' ''Test'' (ParseDisabledResources ''ConfigMap/test'')"
    using IsResourceExcluded_iff_key [of "''ConfigMap''" "''Test''" "''ConfigMap/test''"] h4
    by blast
  have c3: "IsResourceExcluded ''ConfigMap'' ''test'' (ParseDisabledResources ''ConfigMap/test'')"
    using IsResourceExcluded_iff_key [of "''ConfigMap''" "''test''" "''ConfigMap/test''"] h5
    by blast
  show ?thesis using h1 h2 h3 c1 c2 c3 by blast
qed

section \<open>Properties of the asset conditions\<close>

lemma CheckConditions_loop_all:
  "CheckConditions_loop cs ctx = (\<forall>c\<in>set cs. CheckConditions_loop [c] ctx)"
  by (induction cs) (auto split: ConditionType.splits simp: Let_def)

text \<open>
  C5. \<open>CheckConditions\<close> is true for an asset without conditions, and in general it is
  true exactly when it is true of every condition of the asset taken alone: the conditions
  are combined by AND, and one condition that is not satisfied makes the result false.
\<close>

theorem CheckConditions_and:
  "(Conditions am = [] \<longrightarrow> CheckConditions am ctx)
   \<and> CheckConditions am ctx =
       (\<forall>c\<in>set (Conditions am). CheckConditions (am\<lparr>Conditions := [c]\<rparr>) ctx)"
  using CheckConditions_loop_all [of "Conditions am" ctx]
  by (auto simp: CheckConditions_def)

theorem CheckConditions_and_witness:
  "Conditions (asset_with []) = []
   \<and> CheckConditions (asset_with []) \<lparr>HCO = hco_metallb\<rparr>
   \<and> CheckConditions
        (asset_with [cond_annotation ''platform.kubevirt.io/enable-metallb'' ''true'',
                     cond_annotation ''platform.kubevirt.io/openshift'' ''true''])
        \<lparr>HCO = hco_metallb\<rparr>
   \<and> \<not> CheckConditions
        (asset_with [cond_annotation ''platform.kubevirt.io/enable-metallb'' ''true'',
                     cond_annotation ''platform.kubevirt.io/enable-aaq'' ''true'',
                     cond_annotation ''platform.kubevirt.io/openshift'' ''true''])
        \<lparr>HCO = hco_metallb\<rparr>"
  using CheckConditions_and [of "asset_with []" "\<lparr>HCO = hco_metallb\<rparr>"]
    CheckConditions_and
      [of "asset_with [cond_annotation ''platform.kubevirt.io/enable-metallb'' ''true'',
                       cond_annotation ''platform.kubevirt.io/openshift'' ''true'']"
          "\<lparr>HCO = hco_metallb\<rparr>"]
    CheckConditions_and
      [of "asset_with [cond_annotation ''platform.kubevirt.io/enable-metallb'' ''true'',
                       cond_annotation ''platform.kubevirt.io/enable-aaq'' ''true'',
                       cond_annotation ''platform.kubevirt.io/openshift'' ''true'']"
          "\<lparr>HCO = hco_metallb\<rparr>"]
  by (simp add: asset_with_def cond_annotation_def hco_metallb_def CheckConditions_def
        index_map_def)

text \<open>
  C6. An annotation condition with the empty value, on an HCO that has the annotation with
  the value \<open>anything\<close>: \<open>CheckConditions\<close> compares the annotation's value with the
  empty text and answers false, where the condition is to be true because the annotation
  is present.
\<close>

theorem CheckConditions_empty_value_present:
  "index_map (GetAnnotations hco_gpu) ''enable-gpu'' = ''anything''
   \<and> CheckConditions (asset_with [cond_annotation ''enable-gpu'' '''']) \<lparr>HCO = hco_gpu\<rparr> = False"
  by (simp add: asset_with_def cond_annotation_def hco_gpu_def hco_metallb_def
        CheckConditions_def index_map_def)

end
